theory Spec2Isabelle
  imports Complex_Main "HOL-Library.Char_ord" "HOL-Library.List_Lexorder"
begin

section \<open>Python values\<close>

text \<open>
  The values the handlers of \<^verbatim>\<open>app.py\<close> pass around are what Python's \<^verbatim>\<open>json\<close> can
  carry: \<^verbatim>\<open>None\<close>, booleans, integers, strings, lists and dictionaries. A dictionary keeps
  its insertion order, so it is an association list.
\<close>

datatype json =
    JNull
  | JBool bool
  | JInt int
  | JStr string
  | JList "json list"
  | JObj "(string \<times> json) list"

text \<open>Python's truth test, as used by \<^verbatim>\<open>if cached:\<close>, \<^verbatim>\<open>if not user_id:\<close> and \<^verbatim>\<open>x or []\<close>.\<close>

fun truthy :: "json \<Rightarrow> bool" where
  "truthy JNull = False"
| "truthy (JBool b) = b"
| "truthy (JInt n) = (n \<noteq> 0)"
| "truthy (JStr s) = (s \<noteq> [])"
| "truthy (JList xs) = (xs \<noteq> [])"
| "truthy (JObj kvs) = (kvs \<noteq> [])"

text \<open>\<^verbatim>\<open>d.get(k)\<close> on a dictionary: the value, or \<^verbatim>\<open>None\<close>.\<close>

definition dict_get :: "(string \<times> json) list \<Rightarrow> string \<Rightarrow> json" where
  "dict_get kvs k = (case map_of kvs k of None \<Rightarrow> JNull | Some v \<Rightarrow> v)"

text \<open>\<^verbatim>\<open>d[k] = v\<close>: an existing key keeps its place, a new key goes last.\<close>

fun dict_set :: "(string \<times> json) list \<Rightarrow> string \<Rightarrow> json \<Rightarrow> (string \<times> json) list" where
  "dict_set [] k v = [(k, v)]"
| "dict_set ((k', v') # kvs) k v =
     (if k' = k then (k, v) # kvs else (k', v') # dict_set kvs k v)"

section \<open>The in-memory cache\<close>

text \<open>
  \<^verbatim>\<open>_cache\<close> maps a key to the pair (data, timestamp). \<^verbatim>\<open>time.time()\<close> is a parameter
  of the model; clock readings are idealised as real numbers.
  \<^verbatim>\<open>
  def cache_get(k, ttl):
      v = _cache.get(k)
      if not v: return None
      data, ts = v
      if time.time() - ts > ttl: return None
      return data
  def cache_set(k, data): _cache[k] = (data, time.time())
  \<close>
  The stored pair is a non-empty tuple, so \<^verbatim>\<open>not v\<close> holds only for a missing key. A miss is
  Python's \<^verbatim>\<open>None\<close>, which is \<open>JNull\<close> here.
\<close>

type_synonym cache = "string \<rightharpoonup> json \<times> real"

definition cache_get :: "cache \<Rightarrow> string \<Rightarrow> real \<Rightarrow> real \<Rightarrow> json" where
  "cache_get c k ttl now =
     (case c k of
        None \<Rightarrow> JNull
      | Some (data, ts) \<Rightarrow> if now - ts > ttl then JNull else data)"

definition cache_set :: "cache \<Rightarrow> string \<Rightarrow> json \<Rightarrow> real \<Rightarrow> cache" where
  "cache_set c k data now = c(k \<mapsto> (data, now))"

definition empty_cache :: cache where
  "empty_cache = Map.empty"

section \<open>Requests and the access guard\<close>

text \<open>
  What a handler reads of a Flask request: the value of the \<^verbatim>\<open>X-API-KEY\<close> header when it
  is present, and the query string as the list of its (name, text) pairs. The text of a
  parameter is a Python \<^verbatim>\<open>str\<close>, a list of Unicode code points; the names matter only
  through their comparison with \<^verbatim>\<open>"user_id"\<close> and \<^verbatim>\<open>"days"\<close>.
\<close>

type_synonym ustr = "nat list"

record request =
  x_api_key :: "string option"
  args :: "(string \<times> ustr) list"

datatype response = Response nat json | InternalServerError

text \<open>
  \<^verbatim>\<open>
  def require_api_key():
      if not API_KEY:  # allow if not set (dev)
          return None
      key = request.headers.get("X-API-KEY")
      if key != API_KEY:
          return jsonify({"error": "Unauthorized"}), 401
      return None
  \<close>
  \<^verbatim>\<open>API_KEY\<close> is \<^verbatim>\<open>os.getenv("API_KEY")\<close>: \<^verbatim>\<open>None\<close> when the variable is unset, else its
  text. \<^verbatim>\<open>not API_KEY\<close> holds for \<^verbatim>\<open>None\<close> and for the empty string.
\<close>

definition require_api_key :: "string option \<Rightarrow> request \<Rightarrow> response option" where
  "require_api_key API_KEY req =
     (if API_KEY = None \<or> API_KEY = Some [] then None
      else if x_api_key req \<noteq> API_KEY
        then Some (Response 401 (JObj [(''error'', JStr ''Unauthorized'')]))
      else None)"

subsection \<open>Integer query parameters\<close>

text \<open>
  \<^verbatim>\<open>request.args.get(name, type=int)\<close> looks the first value of the parameter up and
  applies \<^verbatim>\<open>int\<close> to its text; the result is the default (\<^verbatim>\<open>None\<close> unless one is given)
  when the parameter is missing or \<^verbatim>\<open>int\<close> raises \<^verbatim>\<open>ValueError\<close>.

  What \<^verbatim>\<open>int\<close> does on a \<^verbatim>\<open>str\<close> depends on the interpreter: its Unicode tables
  (\<^verbatim>\<open>Py_UNICODE_ISSPACE\<close>, \<^verbatim>\<open>Py_UNICODE_TODECIMAL\<close>, the latter with values 0 to 9) and
  the limit \<^verbatim>\<open>sys.get_int_max_str_digits()\<close>, where 0 means no limit. They are parameters.
\<close>

record interpreter =
  Py_UNICODE_ISSPACE :: "nat \<Rightarrow> bool"
  Py_UNICODE_TODECIMAL :: "nat \<Rightarrow> nat option"
  max_str_digits :: nat

text \<open>
  \<^verbatim>\<open>int(s)\<close> in CPython, base 10. A string with a code point above ASCII is first
  rewritten (\<^verbatim>\<open>_PyUnicode_TransformDecimalAndSpaceToASCII\<close>): code points below 127 stay,
  Unicode white space becomes a space, a Unicode decimal digit becomes its ASCII digit,
  and at anything else the text ends in \<^verbatim>\<open>?\<close>. An ASCII string is taken as it is. The
  result is read by \<^verbatim>\<open>PyLong_FromString\<close>: ASCII white space (tab, line feed, vertical
  tab, form feed, carriage return, space), an optional sign, then digits and
  underscores, where every underscore stands between two digits; more digits than the
  limit allows (when there are more than 640 of them) are an error; then ASCII white
  space up to the end of the text.
\<close>

definition Py_ISSPACE :: "nat \<Rightarrow> bool" where
  "Py_ISSPACE ch = (ch \<in> set [9, 10, 11, 12, 13, 32])"

definition is_ascii_digit :: "nat \<Rightarrow> bool" where
  "is_ascii_digit ch = (48 \<le> ch \<and> ch \<le> 57)"

fun transform_to_ascii :: "interpreter \<Rightarrow> ustr \<Rightarrow> ustr" where
  "transform_to_ascii py [] = []"
| "transform_to_ascii py (ch # s) =
     (if ch < 127 then ch # transform_to_ascii py s
      else if Py_UNICODE_ISSPACE py ch then 32 # transform_to_ascii py s
      else (case Py_UNICODE_TODECIMAL py ch of
              None \<Rightarrow> [63]
            | Some d \<Rightarrow> (48 + d) # transform_to_ascii py s))"

definition to_ascii :: "interpreter \<Rightarrow> ustr \<Rightarrow> ustr" where
  "to_ascii py s = (if list_all (\<lambda>ch. ch < 128) s then s else transform_to_ascii py s)"

text \<open>The scanned digits and underscores are well formed.\<close>

fun digits_ok :: "ustr \<Rightarrow> bool" where
  "digits_ok [] = False"
| "digits_ok [c] = is_ascii_digit c"
| "digits_ok (c # d # s) =
     (is_ascii_digit c \<and>
      (if d = 95
       then (case s of [] \<Rightarrow> False | e # r \<Rightarrow> is_ascii_digit e \<and> digits_ok s)
       else digits_ok (d # s)))"

definition py_int :: "interpreter \<Rightarrow> ustr \<Rightarrow> int option" where
  "py_int py u =
     (let str = dropWhile Py_ISSPACE (to_ascii py u);
          negative = (case str of c # r \<Rightarrow> c = 45 | [] \<Rightarrow> False);
          start = (case str of c # r \<Rightarrow> if c = 43 \<or> c = 45 then r else str | [] \<Rightarrow> str);
          scan = takeWhile (\<lambda>c. is_ascii_digit c \<or> c = 95) start;
          rest = dropWhile (\<lambda>c. is_ascii_digit c \<or> c = 95) start;
          digits = filter is_ascii_digit scan
      in if \<not> digits_ok scan then None
         else if 640 < length digits \<and> 0 < max_str_digits py \<and> max_str_digits py < length digits
           then None
         else if dropWhile Py_ISSPACE rest \<noteq> [] then None
         else Some ((if negative then - 1 else 1)
                    * int (foldl (\<lambda>acc c. acc * 10 + (c - 48)) 0 digits)))"

definition args_get_int :: "interpreter \<Rightarrow> (string \<times> ustr) list \<Rightarrow> string \<Rightarrow> int option" where
  "args_get_int py qs name =
     (case map_of qs name of
        None \<Rightarrow> None
      | Some s \<Rightarrow> py_int py s)"

text \<open>\<^verbatim>\<open>str\<close> of an integer, as the f-strings of the cache keys print it.\<close>

fun str_nat :: "nat \<Rightarrow> string" where
  "str_nat n =
     (if n < 10 then [''0123456789'' ! n]
      else str_nat (n div 10) @ [''0123456789'' ! (n mod 10)])"

declare str_nat.simps [simp del]

definition str_int :: "int \<Rightarrow> string" where
  "str_int n = (if n < 0 then CHR ''-'' # str_nat (nat (- n)) else str_nat (nat n))"

section \<open>The store and its queries\<close>

text \<open>
  Modelled from the spec: the declarations of the tables \<^verbatim>\<open>borrowings\<close> and \<^verbatim>\<open>items\<close>
  are not part of the repository. A borrowing references a user and an item and carries
  an approval, a due and a return date, each of which may be null; an item has an
  identity, a display name and a category that may be null. Timestamps are seconds.
\<close>

record borrowing =
  b_id :: int
  b_user_id :: int
  b_item_id :: int
  b_approval_date :: "int option"
  b_due_date :: "int option"
  b_return_date :: "int option"

record item =
  i_id :: int
  i_name :: string
  i_category :: "string option"

text \<open>
  The state of the store when a query runs: the two tables in the order the engine
  scans them, the engine's \<^verbatim>\<open>NOW()\<close>, its \<^verbatim>\<open>date_trunc('month', NOW())\<close>, and how it
  prints the day of a timestamp (\<^verbatim>\<open>date_trunc('day', t)::date::text\<close>).
\<close>

record database =
  borrowings :: "borrowing list"
  items :: "item list"
  NOW :: int
  month_start :: int
  day_text :: "int \<Rightarrow> string"

subsection \<open>SQL building blocks\<close>

text \<open>
  \<^verbatim>\<open>GROUP BY\<close> makes one group for each distinct key; \<^verbatim>\<open>ORDER BY e DESC\<close> is a stable
  sort here, so rows with equal keys stay in the order the engine produced them (SQL
  leaves that order open); \<^verbatim>\<open>SUM\<close> over no rows is null.
\<close>

definition group_keys :: "('r \<Rightarrow> 'k) \<Rightarrow> 'r list \<Rightarrow> 'k list" where
  "group_keys f rows = remdups (map f rows)"

definition group_of :: "('r \<Rightarrow> 'k) \<Rightarrow> 'k \<Rightarrow> 'r list \<Rightarrow> 'r list" where
  "group_of f k rows = filter (\<lambda>r. f r = k) rows"

definition order_by_desc :: "('r \<Rightarrow> int) \<Rightarrow> 'r list \<Rightarrow> 'r list" where
  "order_by_desc f rows = sort_key (\<lambda>r. - f r) rows"

definition sql_sum :: "int list \<Rightarrow> int option" where
  "sql_sum xs = (if xs = [] then None else Some (sum_list xs))"

definition sql_int :: "int option \<Rightarrow> json" where
  "sql_int v = (case v of None \<Rightarrow> JNull | Some n \<Rightarrow> JInt n)"

text \<open>\<^verbatim>\<open>FROM borrowings b JOIN items i ON i.id = b.item_id\<close>\<close>

definition borrowed_items :: "database \<Rightarrow> (borrowing \<times> item) list" where
  "borrowed_items d =
     concat (map (\<lambda>b. map (\<lambda>i. (b, i)) (filter (\<lambda>i. i_id i = b_item_id b) (items d)))
                 (borrowings d))"

subsection \<open>top-books\<close>

text \<open>
  \<^verbatim>\<open>
  SELECT i.id, i.name, COUNT(b.id) AS borrow_count
  FROM borrowings b JOIN items i ON i.id = b.item_id
  GROUP BY i.id, i.name ORDER BY borrow_count DESC LIMIT 5;
  \<close>
\<close>

definition q_top_books :: "database \<Rightarrow> (string \<times> json) list list" where
  "q_top_books d =
     (let joined = borrowed_items d;
          key = (\<lambda>(b, i). (i_id i, i_name i));
          rows = map (\<lambda>k. (k, int (length (group_of key k joined)))) (group_keys key joined)
      in map (\<lambda>((iid, nm), n). [(''id'', JInt iid), (''name'', JStr nm), (''borrow_count'', JInt n)])
             (take 5 (order_by_desc snd rows)))"

subsection \<open>borrowings-trend\<close>

text \<open>
  \<^verbatim>\<open>
  SELECT date_trunc('day', approval_date)::date::text AS day, COUNT(*)::int AS count
  FROM borrowings
  WHERE approval_date IS NOT NULL
    AND approval_date >= NOW() - make_interval(days => %s)
  GROUP BY day ORDER BY day ASC;
  \<close>
  \<^verbatim>\<open>day\<close> is the output column, a text; texts are compared bytewise.
\<close>

definition q_borrowings_trend :: "database \<Rightarrow> int \<Rightarrow> (string \<times> json) list list" where
  "q_borrowings_trend d days =
     (let stamps = concat (map (\<lambda>b. case b_approval_date b of
                                        None \<Rightarrow> []
                                      | Some t \<Rightarrow> if NOW d - days * 86400 \<le> t then [t] else [])
                               (borrowings d));
          rows = map (\<lambda>k. (k, int (length (group_of (day_text d) k stamps))))
                     (group_keys (day_text d) stamps)
      in map (\<lambda>(day, n). [(''day'', JStr day), (''count'', JInt n)]) (sort_key fst rows))"

subsection \<open>top-categories\<close>

text \<open>
  \<^verbatim>\<open>
  SELECT COALESCE(NULLIF(TRIM(i.category), ''), 'Uncategorised') AS category,
         COUNT(b.id)::int AS count
  FROM borrowings b JOIN items i ON i.id = b.item_id
  GROUP BY category ORDER BY count DESC LIMIT 6;
  \<close>
  \<^verbatim>\<open>TRIM\<close> without a character list removes spaces (U+0020) from both ends, and nothing
  else. The name \<^verbatim>\<open>category\<close> in \<^verbatim>\<open>GROUP BY\<close> is both the input column \<^verbatim>\<open>items.category\<close>
  and an output column; PostgreSQL resolves a \<^verbatim>\<open>GROUP BY\<close> name to the input column in
  that case ("In case of ambiguity, a GROUP BY name will be interpreted as an
  input-column name rather than an output column name"), so there is one group for each
  distinct stored category, and the label is computed for each group. \<^verbatim>\<open>count\<close> in
  \<^verbatim>\<open>ORDER BY\<close> is the output column.
\<close>

definition sql_trim :: "string \<Rightarrow> string" where
  "sql_trim s = rev (dropWhile (\<lambda>c. c = CHR '' '') (rev (dropWhile (\<lambda>c. c = CHR '' '') s)))"

definition category_label :: "string option \<Rightarrow> string" where
  "category_label c =
     (case c of
        None \<Rightarrow> ''Uncategorised''
      | Some s \<Rightarrow> if sql_trim s = [] then ''Uncategorised'' else sql_trim s)"

definition category_groups :: "database \<Rightarrow> (string \<times> int) list" where
  "category_groups d =
     (let joined = borrowed_items d;
          key = (\<lambda>(b, i). i_category i)
      in map (\<lambda>k. (category_label k, int (length (group_of key k joined))))
             (group_keys key joined))"

definition top_categories_rows :: "database \<Rightarrow> (string \<times> int) list" where
  "top_categories_rows d = take 6 (order_by_desc snd (category_groups d))"

definition q_top_categories :: "database \<Rightarrow> (string \<times> json) list list" where
  "q_top_categories d =
     map (\<lambda>(c, n). [(''category'', JStr c), (''count'', JInt n)]) (top_categories_rows d)"

subsection \<open>overdue-stats\<close>

text \<open>
  \<^verbatim>\<open>
  SELECT
    SUM(CASE WHEN b.return_date IS NULL AND b.due_date < NOW() THEN 1 ELSE 0 END)::int AS overdue_now,
    SUM(CASE WHEN b.return_date IS NULL THEN 1 ELSE 0 END)::int AS borrowed_now,
    SUM(CASE WHEN b.return_date >= date_trunc('month', NOW()) THEN 1 ELSE 0 END)::int AS returned_this_month
  FROM borrowings b;
  \<close>
  An aggregate query without \<^verbatim>\<open>GROUP BY\<close> returns exactly one row, also over an empty
  table. A comparison with a null date is not true.
\<close>

definition is_overdue :: "database \<Rightarrow> borrowing \<Rightarrow> bool" where
  "is_overdue d b =
     (b_return_date b = None \<and> (case b_due_date b of None \<Rightarrow> False | Some t \<Rightarrow> t < NOW d))"

definition is_borrowed :: "borrowing \<Rightarrow> bool" where
  "is_borrowed b = (b_return_date b = None)"

definition returned_this_month :: "database \<Rightarrow> borrowing \<Rightarrow> bool" where
  "returned_this_month d b =
     (case b_return_date b of None \<Rightarrow> False | Some t \<Rightarrow> month_start d \<le> t)"

definition sum_case :: "(borrowing \<Rightarrow> bool) \<Rightarrow> borrowing list \<Rightarrow> json" where
  "sum_case P bs = sql_int (sql_sum (map (\<lambda>b. if P b then 1 else 0) bs))"

definition q_overdue_stats :: "database \<Rightarrow> (string \<times> json) list list" where
  "q_overdue_stats d =
     [[(''overdue_now'', sum_case (is_overdue d) (borrowings d)),
       (''borrowed_now'', sum_case is_borrowed (borrowings d)),
       (''returned_this_month'', sum_case (returned_this_month d) (borrowings d))]]"

text \<open>\<^verbatim>\<open>cur.fetchone()\<close>: the first row, or \<^verbatim>\<open>None\<close>.\<close>

definition fetchone :: "'r list \<Rightarrow> 'r option" where
  "fetchone rows = (case rows of [] \<Rightarrow> None | r # _ \<Rightarrow> Some r)"

subsection \<open>recs\<close>

text \<open>
  \<^verbatim>\<open>SELECT DISTINCT b.item_id FROM borrowings b WHERE b.user_id = %s\<close>
\<close>

definition q_user_items :: "database \<Rightarrow> int \<Rightarrow> int list" where
  "q_user_items d uid = remdups (map b_item_id (filter (\<lambda>b. b_user_id b = uid) (borrowings d)))"

text \<open>
  The common table expressions of \<^verbatim>\<open>q_recs\<close>, one definition each.
  \<^verbatim>\<open>
  co AS (
    SELECT b2.item_id AS rec_item, b1.item_id AS reason_item, COUNT(*) AS co_count
    FROM borrowings b1 JOIN borrowings b2
      ON b1.user_id = b2.user_id AND b1.item_id <> b2.item_id
    WHERE b1.item_id IN (SELECT item_id FROM user_items)
    GROUP BY rec_item, reason_item)
  \<close>
\<close>

record co_row =
  rec_item :: int
  reason_item :: int
  co_count :: int

definition co_pairs :: "database \<Rightarrow> int \<Rightarrow> (int \<times> int) list" where
  "co_pairs d uid =
     concat (map (\<lambda>b1. map (\<lambda>b2. (b_item_id b2, b_item_id b1))
                            (filter (\<lambda>b2. b_user_id b1 = b_user_id b2 \<and> b_item_id b1 \<noteq> b_item_id b2)
                                    (borrowings d)))
                 (filter (\<lambda>b1. b_item_id b1 \<in> set (q_user_items d uid)) (borrowings d)))"

definition co :: "database \<Rightarrow> int \<Rightarrow> co_row list" where
  "co d uid =
     map (\<lambda>k. \<lparr>rec_item = fst k, reason_item = snd k,
               co_count = int (length (group_of id k (co_pairs d uid)))\<rparr>)
         (group_keys id (co_pairs d uid))"

text \<open>
  \<^verbatim>\<open>
  scores AS (SELECT rec_item, SUM(co_count) AS score FROM co GROUP BY rec_item),
  filtered AS (
    SELECT s.rec_item, s.score FROM scores s
    WHERE s.rec_item NOT IN (SELECT item_id FROM user_items)
    ORDER BY s.score DESC LIMIT 10)
  \<close>
\<close>

definition scores :: "database \<Rightarrow> int \<Rightarrow> (int \<times> int) list" where
  "scores d uid =
     map (\<lambda>k. (k, sum_list (map co_count (group_of rec_item k (co d uid)))))
         (group_keys rec_item (co d uid))"

definition filtered :: "database \<Rightarrow> int \<Rightarrow> (int \<times> int) list" where
  "filtered d uid =
     take 10 (order_by_desc snd
       (filter (\<lambda>s. fst s \<notin> set (q_user_items d uid)) (scores d uid)))"

text \<open>
  \<^verbatim>\<open>
  SELECT f.rec_item AS id, i.name AS name, f.score::int AS score,
         json_agg(json_build_object('item_id', c.reason_item, 'title', i2.name,
                                    'count', c.co_count)
                  ORDER BY c.co_count DESC) AS reasons
  FROM filtered f
  JOIN co c ON c.rec_item = f.rec_item
  JOIN items i ON i.id = f.rec_item
  JOIN items i2 ON i2.id = c.reason_item
  GROUP BY f.rec_item, i.name, f.score
  ORDER BY f.score DESC LIMIT 5;
  \<close>
  A joined row is kept as (rec_item, name, score) with the reason (reason_item, title,
  co_count).
\<close>

type_synonym reason = "int \<times> string \<times> int"

definition reason_count :: "reason \<Rightarrow> int" where
  "reason_count r = snd (snd r)"

definition reason_title :: "reason \<Rightarrow> string" where
  "reason_title r = fst (snd r)"

definition recs_joined :: "database \<Rightarrow> int \<Rightarrow> ((int \<times> string \<times> int) \<times> reason) list" where
  "recs_joined d uid =
     concat (map (\<lambda>f.
       concat (map (\<lambda>c.
         concat (map (\<lambda>i.
           map (\<lambda>i2. ((fst f, i_name i, snd f), (reason_item c, i_name i2, co_count c)))
               (filter (\<lambda>i2. i_id i2 = reason_item c) (items d)))
           (filter (\<lambda>i. i_id i = fst f) (items d))))
         (filter (\<lambda>c. rec_item c = fst f) (co d uid))))
       (filtered d uid))"

definition rec_groups :: "database \<Rightarrow> int \<Rightarrow> ((int \<times> string \<times> int) \<times> reason list) list" where
  "rec_groups d uid =
     map (\<lambda>k. (k, order_by_desc reason_count (map snd (group_of fst k (recs_joined d uid)))))
         (group_keys fst (recs_joined d uid))"

definition rec_rows :: "database \<Rightarrow> int \<Rightarrow> ((int \<times> string \<times> int) \<times> reason list) list" where
  "rec_rows d uid = take 5 (order_by_desc (\<lambda>r. snd (snd (fst r))) (rec_groups d uid))"

text \<open>The rows as the cursor hands them over: \<^verbatim>\<open>dict(r)\<close> of each, \<^verbatim>\<open>reasons\<close> already decoded.\<close>

definition reason_json :: "reason \<Rightarrow> json" where
  "reason_json r =
     JObj [(''item_id'', JInt (fst r)), (''title'', JStr (reason_title r)),
           (''count'', JInt (reason_count r))]"

definition rec_json :: "(int \<times> string \<times> int) \<times> reason list \<Rightarrow> (string \<times> json) list" where
  "rec_json r =
     [(''id'', JInt (fst (fst r))), (''name'', JStr (fst (snd (fst r)))),
      (''score'', JInt (snd (snd (fst r)))), (''reasons'', JList (map reason_json (snd r)))]"

definition q_recs :: "database \<Rightarrow> int \<Rightarrow> (string \<times> json) list list" where
  "q_recs d uid = map rec_json (rec_rows d uid)"

section \<open>Shaping the recommendation rows\<close>

text \<open>
  \<^verbatim>\<open>
  for r in rows:
      if isinstance(r.get("reasons"), str):
          r["reasons"] = json.loads(r["reasons"])
      rs = r.get("reasons") or []
      r["because"] = [x.get("title") for x in rs[:2] if isinstance(x, dict)]
  \<close>
  \<^verbatim>\<open>json.loads\<close> is a parameter, \<open>None\<close> where it raises. Slicing works on a list and on
  a string (whose characters are no dictionaries) and raises on the other values.
\<close>

datatype error = JSONDecodeError | NotSliceable

fun is_dict :: "json \<Rightarrow> bool" where
  "is_dict (JObj kvs) = True"
| "is_dict _ = False"

fun json_get :: "json \<Rightarrow> string \<Rightarrow> json" where
  "json_get (JObj kvs) k = dict_get kvs k"
| "json_get _ k = JNull"

definition because_of :: "json list \<Rightarrow> json list" where
  "because_of rs = map (\<lambda>x. json_get x ''title'') (filter is_dict (take 2 rs))"

definition decode_reasons ::
  "(string \<Rightarrow> json option) \<Rightarrow> (string \<times> json) list \<Rightarrow> error + (string \<times> json) list" where
  "decode_reasons loads r =
     (case dict_get r ''reasons'' of
        JStr s \<Rightarrow> (case loads s of
                    None \<Rightarrow> Inl JSONDecodeError
                  | Some v \<Rightarrow> Inr (dict_set r ''reasons'' v))
      | _ \<Rightarrow> Inr r)"

definition add_because :: "(string \<times> json) list \<Rightarrow> error + (string \<times> json) list" where
  "add_because r =
     (case (if truthy (dict_get r ''reasons'') then dict_get r ''reasons'' else JList []) of
        JList rs \<Rightarrow> Inr (dict_set r ''because'' (JList (because_of rs)))
      | JStr s \<Rightarrow> Inr (dict_set r ''because'' (JList []))
      | _ \<Rightarrow> Inl NotSliceable)"

definition shape_row ::
  "(string \<Rightarrow> json option) \<Rightarrow> (string \<times> json) list \<Rightarrow> error + (string \<times> json) list" where
  "shape_row loads r =
     (case decode_reasons loads r of Inl e \<Rightarrow> Inl e | Inr r' \<Rightarrow> add_because r')"

fun shape_rows ::
  "(string \<Rightarrow> json option) \<Rightarrow> (string \<times> json) list list \<Rightarrow> error + (string \<times> json) list list" where
  "shape_rows loads [] = Inr []"
| "shape_rows loads (r # rows) =
     (case shape_row loads r of
        Inl e \<Rightarrow> Inl e
      | Inr r' \<Rightarrow> (case shape_rows loads rows of Inl e \<Rightarrow> Inl e | Inr rows' \<Rightarrow> Inr (r' # rows')))"

section \<open>The handlers\<close>

text \<open>
  A handler runs in a context: the configured key, the store (taken as reachable: a
  failing connection is outside the model), the clock reading at its cache lookup and
  the one at its cache store, \<^verbatim>\<open>json.loads\<close>, and the interpreter as far as \<^verbatim>\<open>int\<close>
  depends on it. It takes the request and the cache and
  returns its reply, the cache afterwards, and the cache and store accesses it made, in
  order.
\<close>

record ctx =
  API_KEY :: "string option"
  db :: database
  t_read :: real
  t_write :: real
  json_loads :: "string \<Rightarrow> json option"
  python :: interpreter

datatype event = CacheRead string | DbQuery string | CacheWrite string

record outcome =
  reply :: response
  cache_after :: cache
  effects :: "event list"

definition jsonify :: "(string \<times> json) list list \<Rightarrow> json" where
  "jsonify rows = JList (map JObj rows)"

definition health :: "ctx \<Rightarrow> request \<Rightarrow> cache \<Rightarrow> outcome" where
  "health cx req c =
     \<lparr>reply = Response 200 (JObj [(''ok'', JBool True)]), cache_after = c, effects = []\<rparr>"

definition top_books :: "ctx \<Rightarrow> request \<Rightarrow> cache \<Rightarrow> outcome" where
  "top_books cx req c =
     (case require_api_key (API_KEY cx) req of
        Some auth \<Rightarrow> \<lparr>reply = auth, cache_after = c, effects = []\<rparr>
      | None \<Rightarrow>
          let cached = cache_get c ''top-books'' 60 (t_read cx) in
          if truthy cached
          then \<lparr>reply = Response 200 cached, cache_after = c,
                effects = [CacheRead ''top-books'']\<rparr>
          else
            let rows = jsonify (q_top_books (db cx)) in
            \<lparr>reply = Response 200 rows,
             cache_after = cache_set c ''top-books'' rows (t_write cx),
             effects = [CacheRead ''top-books'', DbQuery ''q'', CacheWrite ''top-books'']\<rparr>)"

definition recs :: "ctx \<Rightarrow> request \<Rightarrow> cache \<Rightarrow> outcome" where
  "recs cx req c =
     (case require_api_key (API_KEY cx) req of
        Some auth \<Rightarrow> \<lparr>reply = auth, cache_after = c, effects = []\<rparr>
      | None \<Rightarrow>
          (case args_get_int (python cx) (args req) ''user_id'' of
             None \<Rightarrow>
               \<lparr>reply = Response 400 (JObj [(''error'', JStr ''user_id is required'')]),
                cache_after = c, effects = []\<rparr>
           | Some user_id \<Rightarrow>
               if user_id = 0
               then \<lparr>reply = Response 400 (JObj [(''error'', JStr ''user_id is required'')]),
                     cache_after = c, effects = []\<rparr>
               else
                 let key = ''recs:'' @ str_int user_id;
                     cached = cache_get c key 60 (t_read cx) in
                 if truthy cached
                 then \<lparr>reply = Response 200 cached, cache_after = c, effects = [CacheRead key]\<rparr>
                 else if q_user_items (db cx) user_id = []
                 then \<lparr>reply = Response 200 (JList []), cache_after = c,
                       effects = [CacheRead key, DbQuery ''q_user_items'']\<rparr>
                 else
                   (case shape_rows (json_loads cx) (q_recs (db cx) user_id) of
                      Inl e \<Rightarrow>
                        \<lparr>reply = InternalServerError, cache_after = c,
                         effects = [CacheRead key, DbQuery ''q_user_items'', DbQuery ''q_recs'']\<rparr>
                    | Inr rows \<Rightarrow>
                        \<lparr>reply = Response 200 (jsonify rows),
                         cache_after = cache_set c key (jsonify rows) (t_write cx),
                         effects = [CacheRead key, DbQuery ''q_user_items'', DbQuery ''q_recs'',
                                    CacheWrite key]\<rparr>)))"

definition borrowings_trend :: "ctx \<Rightarrow> request \<Rightarrow> cache \<Rightarrow> outcome" where
  "borrowings_trend cx req c =
     (case require_api_key (API_KEY cx) req of
        Some auth \<Rightarrow> \<lparr>reply = auth, cache_after = c, effects = []\<rparr>
      | None \<Rightarrow>
          let days = (case args_get_int (python cx) (args req) ''days'' of None \<Rightarrow> 30 | Some n \<Rightarrow> n);
              cache_key = ''borrowings-trend:'' @ str_int days;
              cached = cache_get c cache_key 120 (t_read cx) in
          if truthy cached
          then \<lparr>reply = Response 200 cached, cache_after = c, effects = [CacheRead cache_key]\<rparr>
          else
            let rows = jsonify (q_borrowings_trend (db cx) days) in
            \<lparr>reply = Response 200 rows,
             cache_after = cache_set c cache_key rows (t_write cx),
             effects = [CacheRead cache_key, DbQuery ''q'', CacheWrite cache_key]\<rparr>)"

definition top_categories :: "ctx \<Rightarrow> request \<Rightarrow> cache \<Rightarrow> outcome" where
  "top_categories cx req c =
     (case require_api_key (API_KEY cx) req of
        Some auth \<Rightarrow> \<lparr>reply = auth, cache_after = c, effects = []\<rparr>
      | None \<Rightarrow>
          let cached = cache_get c ''top-categories'' 300 (t_read cx) in
          if truthy cached
          then \<lparr>reply = Response 200 cached, cache_after = c,
                effects = [CacheRead ''top-categories'']\<rparr>
          else
            let rows = jsonify (q_top_categories (db cx)) in
            \<lparr>reply = Response 200 rows,
             cache_after = cache_set c ''top-categories'' rows (t_write cx),
             effects = [CacheRead ''top-categories'', DbQuery ''q'',
                        CacheWrite ''top-categories'']\<rparr>)"

text \<open>
  \<^verbatim>\<open>
  row = cur.fetchone()
  out = dict(row) if row else {"overdue_now": 0, "borrowed_now": 0, "returned_this_month": 0}
  \<close>
  A row is falsy when there is none or when it has no column.
\<close>

definition overdue_stats :: "ctx \<Rightarrow> request \<Rightarrow> cache \<Rightarrow> outcome" where
  "overdue_stats cx req c =
     (case require_api_key (API_KEY cx) req of
        Some auth \<Rightarrow> \<lparr>reply = auth, cache_after = c, effects = []\<rparr>
      | None \<Rightarrow>
          let cached = cache_get c ''overdue-stats'' 60 (t_read cx) in
          if truthy cached
          then \<lparr>reply = Response 200 cached, cache_after = c,
                effects = [CacheRead ''overdue-stats'']\<rparr>
          else
            let out = (case fetchone (q_overdue_stats (db cx)) of
                         None \<Rightarrow> [(''overdue_now'', JInt 0), (''borrowed_now'', JInt 0),
                                  (''returned_this_month'', JInt 0)]
                       | Some row \<Rightarrow>
                           if row = [] then [(''overdue_now'', JInt 0), (''borrowed_now'', JInt 0),
                                             (''returned_this_month'', JInt 0)]
                           else row) in
            \<lparr>reply = Response 200 (JObj out),
             cache_after = cache_set c ''overdue-stats'' (JObj out) (t_write cx),
             effects = [CacheRead ''overdue-stats'', DbQuery ''q'',
                        CacheWrite ''overdue-stats'']\<rparr>)"

definition root_handler :: "ctx \<Rightarrow> request \<Rightarrow> cache \<Rightarrow> outcome" where
  "root_handler cx req c =
     \<lparr>reply = Response 200 (JObj
        [(''service'', JStr ''LMS Emerging-Tech API''),
         (''endpoints'', JList [JStr ''/health'', JStr ''/top-books'', JStr ''/recs?user_id='',
            JStr ''/borrowings-trend?days=30'', JStr ''/top-categories'',
            JStr ''/overdue-stats''])]),
      cache_after = c, effects = []\<rparr>"

section \<open>Example stores and requests\<close>

text \<open>
  The borrowing history of the worked example: user 1 borrowed items 1 and 2, user 2
  borrowed items 1 and 3; the items are titled A, B and C.
\<close>

definition loan :: "int \<Rightarrow> int \<Rightarrow> int \<Rightarrow> borrowing" where
  "loan n u i = \<lparr>b_id = n, b_user_id = u, b_item_id = i, b_approval_date = None,
                 b_due_date = None, b_return_date = None\<rparr>"

definition example_db :: database where
  "example_db =
     \<lparr>borrowings = [loan 1 1 1, loan 2 1 2, loan 3 2 1, loan 4 2 3],
      items = [\<lparr>i_id = 1, i_name = ''A'', i_category = None\<rparr>,
               \<lparr>i_id = 2, i_name = ''B'', i_category = None\<rparr>,
               \<lparr>i_id = 3, i_name = ''C'', i_category = None\<rparr>],
      NOW = 1000, month_start = 0, day_text = str_int\<rparr>"

definition empty_db :: database where
  "empty_db = \<lparr>borrowings = [], items = [], NOW = 1000, month_start = 0, day_text = str_int\<rparr>"

text \<open>
  A store whose three borrowed items have the categories null, empty and two spaces,
  borrowed three times, twice and once; and a store whose one item, borrowed once, has a
  single tab as its category.
\<close>

definition blank_categories_db :: database where
  "blank_categories_db =
     \<lparr>borrowings = [loan 1 1 1, loan 2 2 1, loan 3 3 1, loan 4 1 2, loan 5 2 2, loan 6 1 3],
      items = [\<lparr>i_id = 1, i_name = ''A'', i_category = None\<rparr>,
               \<lparr>i_id = 2, i_name = ''B'', i_category = Some []\<rparr>,
               \<lparr>i_id = 3, i_name = ''C'', i_category = Some [CHR '' '', CHR '' '']\<rparr>],
      NOW = 1000, month_start = 0, day_text = str_int\<rparr>"

definition tab_category_db :: database where
  "tab_category_db =
     \<lparr>borrowings = [loan 1 1 1],
      items = [\<lparr>i_id = 1, i_name = ''A'', i_category = Some [CHR 0x09]\<rparr>],
      NOW = 1000, month_start = 0, day_text = str_int\<rparr>"

text \<open>
  An interpreter: CPython 3.11 with the tables of Unicode 14.0 and the default limit of
  4300 digits. \<open>unicode_spaces\<close> are the code points of white space, \<open>unicode_zeros\<close>
  those of the decimal digit zero of each script; the digits 1 to 9 follow their zero.
\<close>

definition unicode_spaces :: "nat list" where
  "unicode_spaces =
     [0x9, 0xA, 0xB, 0xC, 0xD, 0x1C, 0x1D, 0x1E, 0x1F, 0x20, 0x85, 0xA0, 0x1680,
      0x2000, 0x2001, 0x2002, 0x2003, 0x2004, 0x2005, 0x2006, 0x2007, 0x2008, 0x2009,
      0x200A, 0x2028, 0x2029, 0x202F, 0x205F, 0x3000]"

definition unicode_zeros :: "nat list" where
  "unicode_zeros =
     [0x30, 0x660, 0x6F0, 0x7C0, 0x966, 0x9E6, 0xA66, 0xAE6, 0xB66, 0xBE6, 0xC66,
      0xCE6, 0xD66, 0xDE6, 0xE50, 0xED0, 0xF20, 0x1040, 0x1090, 0x17E0, 0x1810, 0x1946,
      0x19D0, 0x1A80, 0x1A90, 0x1B50, 0x1BB0, 0x1C40, 0x1C50, 0xA620, 0xA8D0, 0xA900,
      0xA9D0, 0xA9F0, 0xAA50, 0xABF0, 0xFF10, 0x104A0, 0x10D30, 0x11066, 0x110F0,
      0x11136, 0x111D0, 0x112F0, 0x11450, 0x114D0, 0x11650, 0x116C0, 0x11730, 0x118E0,
      0x11950, 0x11C50, 0x11D50, 0x11DA0, 0x16A60, 0x16AC0, 0x16B50, 0x1D7CE, 0x1D7D8,
      0x1D7E2, 0x1D7EC, 0x1D7F6, 0x1E140, 0x1E2F0, 0x1E950, 0x1FBF0]"

definition cpython_3_11 :: interpreter where
  "cpython_3_11 =
     \<lparr>Py_UNICODE_ISSPACE = (\<lambda>ch. ch \<in> set unicode_spaces),
      Py_UNICODE_TODECIMAL =
        (\<lambda>ch. map_option (\<lambda>z. ch - z) (find (\<lambda>z. z \<le> ch \<and> ch < z + 10) unicode_zeros)),
      max_str_digits = 4300\<rparr>"

text \<open>
  A context with the given key and store, reading the clock at 1000 and 1001, on that
  interpreter.
\<close>

definition ctx_of :: "string option \<Rightarrow> database \<Rightarrow> ctx" where
  "ctx_of k d = \<lparr>API_KEY = k, db = d, t_read = 1000, t_write = 1001, json_loads = (\<lambda>s. None),
                 python = cpython_3_11\<rparr>"

text \<open>A request whose parameter values are given as Latin-1 text.\<close>

definition ustr_of :: "string \<Rightarrow> ustr" where
  "ustr_of s = map of_char s"

definition get_request :: "string option \<Rightarrow> (string \<times> string) list \<Rightarrow> request" where
  "get_request h qs = \<lparr>x_api_key = h, args = map (\<lambda>(k, v). (k, ustr_of v)) qs\<rparr>"

section \<open>Notions used in the statements\<close>

text \<open>
  The row the handler returns for a group of \<open>rec_rows\<close>: the columns of the query
  followed by \<^verbatim>\<open>because\<close>, the titles of the first two reasons.
\<close>

definition with_because :: "(int \<times> string \<times> int) \<times> reason list \<Rightarrow> (string \<times> json) list" where
  "with_because r =
     rec_json r @ [(''because'', JList (map (\<lambda>x. JStr (reason_title x)) (take 2 (snd r))))]"

text \<open>The cache holds an entry under the key whose payload is falsy.\<close>

definition falsy_entry :: "cache \<Rightarrow> string \<Rightarrow> bool" where
  "falsy_entry c k = (case c k of None \<Rightarrow> False | Some (v, ts) \<Rightarrow> \<not> truthy v)"

text \<open>
  Two caches that hold an empty list, stored at 990 and so still fresh at 1000: one under
  the key of \<^verbatim>\<open>/recs?user_id=7\<close>, one under the key of \<^verbatim>\<open>/top-books\<close>.
\<close>

definition stale_empty_cache :: cache where
  "stale_empty_cache = cache_set empty_cache ''recs:7'' (JList []) 990"

definition empty_books_cache :: cache where
  "empty_books_cache = cache_set empty_cache ''top-books'' (JList []) 990"

section \<open>The TTL cache: set then get\<close>

text \<open>
  C3. For every key \<open>k\<close>, payload \<open>v\<close> and ttl \<open>t > 0\<close>: \<open>cache_set k v\<close> followed by
  \<open>cache_get k t\<close> at the same clock reading returns \<open>v\<close>; and at any later reading \<open>now'\<close>
  with \<open>now' - stored_at > t\<close> the lookup is a miss (\<^verbatim>\<open>None\<close>).
\<close>

theorem cache_set_get:
  assumes "0 < t"
  shows "cache_get (cache_set c k v now) k t now = v
     \<and> (\<forall>now'. now' - now > t \<longrightarrow> cache_get (cache_set c k v now) k t now' = JNull)"
  using assms by (simp add: cache_get_def cache_set_def)

theorem cache_set_get_witness:
  "(0::real) < 60
   \<and> cache_get (cache_set empty_cache ''top-books'' (JList [JInt 1]) 100) ''top-books'' 60 100
       = JList [JInt 1]
   \<and> cache_get (cache_set empty_cache ''top-books'' (JList [JInt 1]) 100) ''top-books'' 60 161
       = JNull"
proof -
  have h: "(0::real) < 60" by simp
  from cache_set_get [OF h, of empty_cache "''top-books''" "JList [JInt 1]" 100]
  show ?thesis by simp
qed


section \<open>The access guard\<close>

lemmas handler_defs =
  top_books_def recs_def borrowings_trend_def top_categories_def overdue_stats_def

text \<open>
  C4. When a key is configured (\<^verbatim>\<open>API_KEY\<close> is a non-empty string) and the request's
  \<^verbatim>\<open>X-API-KEY\<close> header is missing or differs from it, each of the five protected handlers
  replies 401 with the body \<^verbatim>\<open>{"error": "Unauthorized"}\<close>, leaves the cache as it was and
  makes no cache or store access. \<^verbatim>\<open>/health\<close> and \<^verbatim>\<open>/\<close> reply 200 whatever the key and the
  header are, with no access either.
\<close>

theorem unauthorized_no_work:
  "(API_KEY cx = Some k \<and> k \<noteq> [] \<and> x_api_key req \<noteq> Some k \<longrightarrow>
      (\<forall>h \<in> set [top_books, recs, borrowings_trend, top_categories, overdue_stats].
         h cx req c = \<lparr>reply = Response 401 (JObj [(''error'', JStr ''Unauthorized'')]),
                        cache_after = c, effects = []\<rparr>))
   \<and> (\<forall>h \<in> set [health, root_handler].
        \<exists>b. h cx req c = \<lparr>reply = Response 200 b, cache_after = c, effects = []\<rparr>)"
  by (simp add: require_api_key_def handler_defs health_def root_handler_def)

theorem unauthorized_no_work_witness:
  "API_KEY (ctx_of (Some ''s3cret'') example_db) = Some ''s3cret'' \<and> ''s3cret'' \<noteq> []
   \<and> x_api_key (get_request None []) \<noteq> Some ''s3cret''
   \<and> top_books (ctx_of (Some ''s3cret'') example_db) (get_request None []) empty_cache
         = \<lparr>reply = Response 401 (JObj [(''error'', JStr ''Unauthorized'')]),
            cache_after = empty_cache, effects = []\<rparr>
   \<and> recs (ctx_of (Some ''s3cret'') example_db) (get_request None []) empty_cache
         = \<lparr>reply = Response 401 (JObj [(''error'', JStr ''Unauthorized'')]),
            cache_after = empty_cache, effects = []\<rparr>
   \<and> borrowings_trend (ctx_of (Some ''s3cret'') example_db) (get_request None []) empty_cache
         = \<lparr>reply = Response 401 (JObj [(''error'', JStr ''Unauthorized'')]),
            cache_after = empty_cache, effects = []\<rparr>
   \<and> top_categories (ctx_of (Some ''s3cret'') example_db) (get_request None []) empty_cache
         = \<lparr>reply = Response 401 (JObj [(''error'', JStr ''Unauthorized'')]),
            cache_after = empty_cache, effects = []\<rparr>
   \<and> overdue_stats (ctx_of (Some ''s3cret'') example_db) (get_request None []) empty_cache
         = \<lparr>reply = Response 401 (JObj [(''error'', JStr ''Unauthorized'')]),
            cache_after = empty_cache, effects = []\<rparr>
   \<and> reply (health (ctx_of (Some ''s3cret'') example_db) (get_request None []) empty_cache)
         = Response 200 (JObj [(''ok'', JBool True)])"
  using unauthorized_no_work
    [of "ctx_of (Some ''s3cret'') example_db" "''s3cret''" "get_request None []" empty_cache]
  by (simp add: ctx_of_def get_request_def health_def)

text \<open>
  C10. With the empty string as the configured key, \<open>require_api_key\<close> lets every request
  through whatever its header is, and each protected handler does exactly what it does
  when the key is unset.
\<close>

theorem empty_key_disables_guard:
  "require_api_key (Some []) req = None
   \<and> (\<forall>h \<in> set [top_books, recs, borrowings_trend, top_categories, overdue_stats].
        h (cx\<lparr>API_KEY := Some []\<rparr>) req c = h (cx\<lparr>API_KEY := None\<rparr>) req c)"
  by (auto simp add: require_api_key_def handler_defs Let_def split: option.splits sum.splits)

theorem empty_key_disables_guard_witness:
  "reply (top_books (ctx_of (Some []) example_db) (get_request (Some ''wrong'') []) empty_cache)
     = reply (top_books (ctx_of None example_db) (get_request (Some ''wrong'') []) empty_cache)"
  using empty_key_disables_guard
    [of "get_request (Some ''wrong'') []" "ctx_of None example_db" empty_cache]
  by (simp add: ctx_of_def)

section \<open>Validation of \<^verbatim>\<open>user_id\<close>\<close>

text \<open>
  \<^verbatim>\<open>int\<close> on some texts, on the example interpreter: signs, underscores and white space;
  the separator U+001F, which is no ASCII white space and stays as it is; the no-break
  space U+00A0 and the Arabic-Indic digit three U+0663, which are rewritten.
\<close>

lemmas py_int_eval =
  py_int_def to_ascii_def Py_ISSPACE_def is_ascii_digit_def Let_def cpython_3_11_def
  unicode_spaces_def unicode_zeros_def

lemma ustr_of_examples:
  "ustr_of ''-1'' = [45, 49]"
  "ustr_of ''0'' = [48]"
  "ustr_of ''1'' = [49]"
  "ustr_of ''7'' = [55]"
  "ustr_of '' +1_000 '' = [32, 43, 49, 95, 48, 48, 48, 32]"
  "ustr_of ''1__0'' = [49, 95, 95, 48]"
  "ustr_of ''7_'' = [55, 95]"
  "ustr_of ''- 7'' = [45, 32, 55]"
  "ustr_of ''abc'' = [97, 98, 99]"
  by code_simp+

lemma py_int_examples:
  "py_int cpython_3_11 (ustr_of ''-1'') = Some (- 1)"
  "py_int cpython_3_11 (ustr_of '' +1_000 '') = Some 1000"
  "py_int cpython_3_11 (ustr_of ''1__0'') = None"
  "py_int cpython_3_11 (ustr_of ''7_'') = None"
  "py_int cpython_3_11 (ustr_of ''- 7'') = None"
  "py_int cpython_3_11 (ustr_of ''abc'') = None"
  "py_int cpython_3_11 [] = None"
  "py_int cpython_3_11 [0x1F, 55] = None"
  "py_int cpython_3_11 [0xA0, 55] = Some 7"
  "py_int cpython_3_11 [0x1F, 55, 0xA0] = None"
  "py_int cpython_3_11 [0x663] = Some 3"
  "py_int cpython_3_11 [55, 0] = None"
  by (simp_all add: ustr_of_examples py_int_eval)

text \<open>The \<^verbatim>\<open>user_id\<close> of the example requests.\<close>

lemma example_user_ids:
  "args_get_int (python (ctx_of k d)) (args (get_request h [(''user_id'', ''-1'')])) ''user_id''
     = Some (- 1)"
  "args_get_int (python (ctx_of k d)) (args (get_request h [(''user_id'', ''0'')])) ''user_id''
     = Some 0"
  "args_get_int (python (ctx_of k d)) (args (get_request h [(''user_id'', ''1'')])) ''user_id''
     = Some 1"
  "args_get_int (python (ctx_of k d)) (args (get_request h [(''user_id'', ''7'')])) ''user_id''
     = Some 7"
  by (simp_all add: args_get_int_def get_request_def ctx_of_def ustr_of_examples py_int_eval)

lemma example_keys:
  "str_int (- 1) = ''-1''" "str_int 1 = ''1''" "str_int 7 = ''7''"
  by code_simp+

lemma example_guard: "require_api_key (API_KEY (ctx_of None d)) req = None"
  by (simp add: require_api_key_def ctx_of_def)

lemma ctx_of_fields:
  "API_KEY (ctx_of k d) = k" "db (ctx_of k d) = d" "t_read (ctx_of k d) = 1000"
  "t_write (ctx_of k d) = 1001" "json_loads (ctx_of k d) = (\<lambda>s. None)"
  "python (ctx_of k d) = cpython_3_11"
  by (simp_all add: ctx_of_def)

lemma example_history:
  "q_user_items example_db (- 1) = []" "q_user_items example_db 7 = []"
  "q_user_items example_db 1 \<noteq> []"
  by code_simp+

text \<open>More digits than the limit allows are refused, whatever the digits are.\<close>

lemma py_int_too_many_digits:
  assumes "list_all is_ascii_digit u" and "640 < length u"
    and "0 < max_str_digits py" and "max_str_digits py < length u"
  shows "py_int py u = None"
proof -
  from assms(1) have ascii: "list_all (\<lambda>ch. ch < 128) u"
    by (induction u) (auto simp add: is_ascii_digit_def)
  from assms(1) have nospace: "dropWhile Py_ISSPACE u = u"
    by (cases u) (auto simp add: is_ascii_digit_def Py_ISSPACE_def)
  from assms(1) assms(2) have nosign: "(case u of c # r \<Rightarrow> if c = 43 \<or> c = 45 then r else u | [] \<Rightarrow> u) = u"
    by (cases u) (auto simp add: is_ascii_digit_def)
  from assms(1) have scan: "takeWhile (\<lambda>c. is_ascii_digit c \<or> c = 95) u = u"
    by (induction u) auto
  from assms(1) have digits: "filter is_ascii_digit u = u"
    by (induction u) auto
  show ?thesis
    using assms(2-4) by (simp add: py_int_def to_ascii_def ascii nospace nosign scan digits Let_def)
qed

text \<open>
  C2, as the code has it. For a request that passes the guard, \<open>recs\<close> replies 400 with
  the body \<^verbatim>\<open>{"error": "user_id is required"}\<close>, touching neither cache nor store, exactly
  when \<^verbatim>\<open>user_id\<close> is missing, \<^verbatim>\<open>int\<close> raises on its text, or its value is zero. For
  every other integer, negative ones included, it goes on to the cache lookup under the
  key \<^verbatim>\<open>recs:<user_id>\<close>.
\<close>

theorem recs_user_id_check:
  assumes "require_api_key (API_KEY cx) req = None"
  shows "((recs cx req c = \<lparr>reply = Response 400 (JObj [(''error'', JStr ''user_id is required'')]),
                           cache_after = c, effects = []\<rparr>)
          = (case map_of (args req) ''user_id'' of
               None \<Rightarrow> True
             | Some s \<Rightarrow> py_int (python cx) s = None \<or> py_int (python cx) s = Some 0))
     \<and> (\<forall>n. args_get_int (python cx) (args req) ''user_id'' = Some n \<and> n \<noteq> 0 \<longrightarrow>
           (\<exists>rest. effects (recs cx req c) = CacheRead (''recs:'' @ str_int n) # rest))"
  using assms
  by (auto simp add: recs_def args_get_int_def Let_def split: option.splits sum.splits)

theorem recs_user_id_check_witness:
  "require_api_key (API_KEY (ctx_of None example_db)) (get_request None [(''user_id'', ''0'')]) = None
   \<and> recs (ctx_of None example_db) (get_request None [(''user_id'', ''0'')]) empty_cache
       = \<lparr>reply = Response 400 (JObj [(''error'', JStr ''user_id is required'')]),
          cache_after = empty_cache, effects = []\<rparr>"
proof -
  have a: "require_api_key (API_KEY (ctx_of None example_db))
             (get_request None [(''user_id'', ''0'')]) = None"
    by (simp add: require_api_key_def ctx_of_def)
  have b: "py_int (python (ctx_of None example_db)) (ustr_of ''0'') = Some 0"
    by (simp add: ctx_of_def ustr_of_examples py_int_eval)
  from recs_user_id_check [OF a, of empty_cache] a b show ?thesis
    by (simp add: get_request_def)
qed

text \<open>
  The claim as written fails for a negative \<^verbatim>\<open>user_id\<close>: \<^verbatim>\<open>/recs?user_id=-1\<close> passes the
  test \<^verbatim>\<open>if not user_id\<close>, reads the cache and queries the store.
\<close>

theorem recs_negative_user_id_counterexample:
  "reply (recs (ctx_of None example_db) (get_request None [(''user_id'', ''-1'')]) empty_cache)
     = Response 200 (JList [])
   \<and> effects (recs (ctx_of None example_db) (get_request None [(''user_id'', ''-1'')]) empty_cache)
     = [CacheRead ''recs:-1'', DbQuery ''q_user_items'']"
proof -
  have m: "cache_get empty_cache ''recs:-1'' 60 (t_read (ctx_of None example_db)) = JNull"
    by (simp add: cache_get_def empty_cache_def)
  show ?thesis
    by (simp add: recs_def example_guard example_user_ids example_keys example_history
        ctx_of_fields(2) m)
qed

section \<open>Recommendations\<close>

text \<open>
  C5. For a request that passes the guard with a valid \<^verbatim>\<open>user_id\<close> of a user without any
  borrowing, \<open>recs\<close> leaves the cache exactly as it was; and when the cache lookup serves
  nothing, the reply is the empty list, after the cache lookup and the query for the
  user's items only.
\<close>

theorem recs_no_history:
  assumes "require_api_key (API_KEY cx) req = None"
    and "args_get_int (python cx) (args req) ''user_id'' = Some uid" and "uid \<noteq> 0"
    and "q_user_items (db cx) uid = []"
  shows "cache_after (recs cx req c) = c
     \<and> (\<not> truthy (cache_get c (''recs:'' @ str_int uid) 60 (t_read cx)) \<longrightarrow>
          reply (recs cx req c) = Response 200 (JList [])
        \<and> effects (recs cx req c)
            = [CacheRead (''recs:'' @ str_int uid), DbQuery ''q_user_items''])"
  using assms by (simp add: recs_def Let_def)

theorem recs_no_history_witness:
  "require_api_key (API_KEY (ctx_of None example_db)) (get_request None [(''user_id'', ''7'')]) = None
   \<and> args_get_int (python (ctx_of None example_db)) (args (get_request None [(''user_id'', ''7'')])) ''user_id'' = Some 7
   \<and> q_user_items (db (ctx_of None example_db)) 7 = []
   \<and> \<not> truthy (cache_get empty_cache (''recs:'' @ str_int 7) 60 (t_read (ctx_of None example_db)))
   \<and> cache_after (recs (ctx_of None example_db) (get_request None [(''user_id'', ''7'')]) empty_cache)
        = empty_cache
   \<and> reply (recs (ctx_of None example_db) (get_request None [(''user_id'', ''7'')]) empty_cache)
        = Response 200 (JList [])"
proof -
  have a: "require_api_key (API_KEY (ctx_of None example_db))
             (get_request None [(''user_id'', ''7'')]) = None"
    by (simp add: require_api_key_def ctx_of_def)
  have b: "args_get_int (python (ctx_of None example_db)) (args (get_request None [(''user_id'', ''7'')])) ''user_id'' = Some 7"
    by (rule example_user_ids)
  have c: "q_user_items (db (ctx_of None example_db)) 7 = []"
    by (simp add: ctx_of_fields example_history)
  have d: "\<not> truthy (cache_get empty_cache (''recs:'' @ str_int 7) 60
                       (t_read (ctx_of None example_db)))"
    by (simp add: cache_get_def empty_cache_def)
  from recs_no_history [OF a b _ c, of empty_cache] a b c d show ?thesis
    by simp
qed

text \<open>
  C6. On the example history, with no key configured and an empty cache,
  \<^verbatim>\<open>/recs?user_id=1\<close> returns one recommendation: item 3 (C) with score 1, the single
  reason (item 1, title A, count 1) and \<^verbatim>\<open>because = ["A"]\<close>; the list is stored under
  \<^verbatim>\<open>recs:1\<close>.
\<close>

theorem recs_example:
  "reply (recs (ctx_of None example_db) (get_request None [(''user_id'', ''1'')]) empty_cache)
     = Response 200 (JList [JObj
          [(''id'', JInt 3), (''name'', JStr ''C''), (''score'', JInt 1),
           (''reasons'', JList [JObj [(''item_id'', JInt 1), (''title'', JStr ''A''),
                                      (''count'', JInt 1)]]),
           (''because'', JList [JStr ''A''])]])
   \<and> cache_after (recs (ctx_of None example_db) (get_request None [(''user_id'', ''1'')])
        empty_cache) ''recs:1''
     = Some (JList [JObj
          [(''id'', JInt 3), (''name'', JStr ''C''), (''score'', JInt 1),
           (''reasons'', JList [JObj [(''item_id'', JInt 1), (''title'', JStr ''A''),
                                      (''count'', JInt 1)]]),
           (''because'', JList [JStr ''A''])]], 1001)
   \<and> effects (recs (ctx_of None example_db) (get_request None [(''user_id'', ''1'')]) empty_cache)
     = [CacheRead ''recs:1'', DbQuery ''q_user_items'', DbQuery ''q_recs'',
        CacheWrite ''recs:1'']"
proof -
  have u: "q_user_items (db (ctx_of None example_db)) 1 \<noteq> []"
    by (simp add: ctx_of_fields example_history)
  have "shape_rows (\<lambda>s. None) (q_recs example_db 1)
     = Inr [[(''id'', JInt 3), (''name'', JStr ''C''), (''score'', JInt 1),
             (''reasons'', JList [JObj [(''item_id'', JInt 1), (''title'', JStr ''A''),
                                        (''count'', JInt 1)]]),
             (''because'', JList [JStr ''A''])]]"
    by code_simp
  then have r: "shape_rows (json_loads (ctx_of None example_db))
                  (q_recs (db (ctx_of None example_db)) 1)
     = Inr [[(''id'', JInt 3), (''name'', JStr ''C''), (''score'', JInt 1),
             (''reasons'', JList [JObj [(''item_id'', JInt 1), (''title'', JStr ''A''),
                                        (''count'', JInt 1)]]),
             (''because'', JList [JStr ''A''])]]"
    by (simp add: ctx_of_fields)
  have m: "cache_get empty_cache ''recs:1'' 60 (t_read (ctx_of None example_db)) = JNull"
    by (simp add: cache_get_def empty_cache_def)
  have w: "t_write (ctx_of None example_db) = 1001"
    by (simp add: ctx_of_def)
  show ?thesis
    by (simp add: recs_def example_guard example_user_ids example_keys u r m w jsonify_def
        cache_set_def Let_def)
qed

section \<open>Overdue statistics\<close>

lemma sum_case_nonempty:
  "bs \<noteq> [] \<Longrightarrow> sum_case P bs = JInt (int (length (filter P bs)))"
proof -
  have "sum_list (map (\<lambda>b. if P b then 1 else 0) bs) = int (length (filter P bs))"
    by (induction bs) simp_all
  then show "bs \<noteq> [] \<Longrightarrow> ?thesis"
    by (simp add: sum_case_def sql_sum_def sql_int_def)
qed

text \<open>
  C1 on the code. Over a store without borrowings, with no key configured and an empty
  cache, \<open>overdue_stats\<close> replies with the three fields null, not 0: each \<^verbatim>\<open>SUM\<close> over no
  rows is null, and the one row of nulls is truthy, so the all-zero default is not taken.
  The row of nulls is also what gets cached.
\<close>

theorem overdue_stats_empty_store:
  "overdue_stats (ctx_of None empty_db) (get_request None []) empty_cache
     = \<lparr>reply = Response 200 (JObj [(''overdue_now'', JNull), (''borrowed_now'', JNull),
                                     (''returned_this_month'', JNull)]),
        cache_after = cache_set empty_cache ''overdue-stats''
          (JObj [(''overdue_now'', JNull), (''borrowed_now'', JNull),
                 (''returned_this_month'', JNull)]) 1001,
        effects = [CacheRead ''overdue-stats'', DbQuery ''q'', CacheWrite ''overdue-stats'']\<rparr>"
  by (simp add: overdue_stats_def ctx_of_def get_request_def empty_db_def empty_cache_def
      require_api_key_def cache_get_def q_overdue_stats_def fetchone_def sum_case_def
      sql_sum_def sql_int_def Let_def)

section \<open>Reasons and \<^verbatim>\<open>because\<close>\<close>

lemma because_of_reasons:
  "because_of (map reason_json rs) = map (\<lambda>x. JStr (reason_title x)) (take 2 rs)"
  by (simp add: because_of_def take_map reason_json_def dict_get_def comp_def)

lemma shape_row_rec_json: "shape_row loads (rec_json r) = Inr (with_because r)"
  by (simp add: shape_row_def decode_reasons_def add_because_def rec_json_def dict_get_def
      with_because_def because_of_reasons) (simp add: because_of_def)

lemma shape_rows_q_recs: "shape_rows loads (map rec_json rows) = Inr (map with_because rows)"
  by (induction rows) (simp_all add: shape_row_rec_json)

lemma order_by_desc_sorted:
  "sorted_wrt (\<lambda>a b. f b \<le> f a) (order_by_desc f xs)"
proof -
  have "sorted (map (\<lambda>r. - f r) (sort_key (\<lambda>r. - f r) xs))"
    by (rule sorted_sort_key)
  then show ?thesis
    by (simp add: order_by_desc_def sorted_map)
qed

lemma set_order_by_desc: "set (order_by_desc f xs) = set xs"
  by (simp add: order_by_desc_def)

lemma rec_rows_reasons_sorted:
  assumes "r \<in> set (rec_rows d uid)"
  shows "sorted_wrt (\<lambda>a b. reason_count b \<le> reason_count a) (snd r)"
proof -
  from assms have "r \<in> set (rec_groups d uid)"
    by (auto simp add: rec_rows_def set_order_by_desc dest: in_set_takeD)
  then show ?thesis
    by (auto simp add: rec_groups_def order_by_desc_sorted)
qed

lemma with_because_fields:
  "dict_get (with_because r) ''reasons'' = JList (map reason_json (snd r))"
  "dict_get (with_because r) ''because'' = JList (map (\<lambda>x. JStr (reason_title x)) (take 2 (snd r)))"
  by (simp_all add: with_because_def rec_json_def dict_get_def)

lemma recs_miss:
  assumes "require_api_key (API_KEY cx) req = None"
    and "args_get_int (python cx) (args req) ''user_id'' = Some uid" and "uid \<noteq> 0"
    and "\<not> truthy (cache_get c (''recs:'' @ str_int uid) 60 (t_read cx))"
  shows "reply (recs cx req c) =
     Response 200 (jsonify (if q_user_items (db cx) uid = [] then []
                            else map with_because (rec_rows (db cx) uid)))"
  using assms by (simp add: recs_def Let_def q_recs_def shape_rows_q_recs jsonify_def)

text \<open>
  C7. On the path of \<open>recs\<close> that computes its reply (the guard passed, a valid
  \<^verbatim>\<open>user_id\<close>, nothing served from the cache), every row of the reply has a \<^verbatim>\<open>reasons\<close> list
  that is ordered by descending count, and its \<^verbatim>\<open>because\<close> list is the titles of the first
  two entries of \<^verbatim>\<open>reasons\<close> (of all of them when there are fewer), in the same order.
\<close>

theorem because_prefix_of_reasons:
  assumes "require_api_key (API_KEY cx) req = None"
    and "args_get_int (python cx) (args req) ''user_id'' = Some uid" and "uid \<noteq> 0"
    and "\<not> truthy (cache_get c (''recs:'' @ str_int uid) 60 (t_read cx))"
  shows "\<exists>rows. reply (recs cx req c) = Response 200 (jsonify rows)
     \<and> (\<forall>r \<in> set rows. \<exists>rs.
           dict_get r ''reasons'' = JList (map reason_json rs)
         \<and> dict_get r ''because'' = JList (map (\<lambda>x. JStr (reason_title x)) (take 2 rs))
         \<and> sorted_wrt (\<lambda>a b. reason_count b \<le> reason_count a) rs)"
proof -
  let ?rows = "if q_user_items (db cx) uid = [] then []
               else map with_because (rec_rows (db cx) uid)"
  have served: "reply (recs cx req c) = Response 200 (jsonify ?rows)"
    by (rule recs_miss [OF assms])
  have "\<exists>rs. dict_get r ''reasons'' = JList (map reason_json rs)
         \<and> dict_get r ''because'' = JList (map (\<lambda>x. JStr (reason_title x)) (take 2 rs))
         \<and> sorted_wrt (\<lambda>a b. reason_count b \<le> reason_count a) rs"
    if "r \<in> set ?rows" for r
  proof -
    from that obtain g where g: "g \<in> set (rec_rows (db cx) uid)" and r: "r = with_because g"
      by (auto split: if_splits)
    from rec_rows_reasons_sorted [OF g] show ?thesis
      by (auto simp add: r with_because_fields)
  qed
  with served show ?thesis
    by blast
qed

theorem because_prefix_of_reasons_witness:
  "require_api_key (API_KEY (ctx_of None example_db)) (get_request None [(''user_id'', ''1'')]) = None
   \<and> args_get_int (python (ctx_of None example_db)) (args (get_request None [(''user_id'', ''1'')])) ''user_id'' = Some 1
   \<and> \<not> truthy (cache_get empty_cache (''recs:'' @ str_int 1) 60 (t_read (ctx_of None example_db)))
   \<and> (\<exists>rows. reply (recs (ctx_of None example_db) (get_request None [(''user_id'', ''1'')])
                 empty_cache) = Response 200 (jsonify rows)
     \<and> (\<forall>r \<in> set rows. \<exists>rs.
           dict_get r ''reasons'' = JList (map reason_json rs)
         \<and> dict_get r ''because'' = JList (map (\<lambda>x. JStr (reason_title x)) (take 2 rs))
         \<and> sorted_wrt (\<lambda>a b. reason_count b \<le> reason_count a) rs))"
proof -
  have a: "require_api_key (API_KEY (ctx_of None example_db))
             (get_request None [(''user_id'', ''1'')]) = None"
    by (simp add: require_api_key_def ctx_of_def)
  have b: "args_get_int (python (ctx_of None example_db)) (args (get_request None [(''user_id'', ''1'')])) ''user_id'' = Some 1"
    by (rule example_user_ids)
  have d: "\<not> truthy (cache_get empty_cache (''recs:'' @ str_int 1) 60
                       (t_read (ctx_of None example_db)))"
    by (simp add: cache_get_def empty_cache_def)
  from because_prefix_of_reasons [OF a b _ d] a b d show ?thesis
    by simp
qed

section \<open>Categories\<close>

lemma length_filter_disjoint:
  "(\<And>x. x \<in> set xs \<Longrightarrow> \<not> (P x \<and> Q x)) \<Longrightarrow>
   length (filter P xs) + length (filter Q xs) = length (filter (\<lambda>x. P x \<or> Q x) xs)"
  by (induction xs) auto

lemma sum_group_sizes:
  "distinct ks \<Longrightarrow>
   (\<Sum>k\<leftarrow>ks. int (length (group_of f k xs))) = int (length (filter (\<lambda>x. f x \<in> set ks) xs))"
proof (induction ks)
  case Nil
  then show ?case by simp
next
  case (Cons k ks)
  have "length (filter (\<lambda>x. f x = k) xs) + length (filter (\<lambda>x. f x \<in> set ks) xs)
          = length (filter (\<lambda>x. f x = k \<or> f x \<in> set ks) xs)"
    using Cons.prems by (intro length_filter_disjoint) auto
  with Cons show ?case
    by (simp add: group_of_def)
qed

lemma counted_under_label:
  "(\<Sum>r\<leftarrow>filter (\<lambda>r. fst r = l) (category_groups d). snd r)
     = int (length (filter (\<lambda>(b, i). category_label (i_category i) = l) (borrowed_items d)))"
proof -
  let ?key = "\<lambda>(b, i). i_category i"
  let ?xs = "borrowed_items d"
  let ?ks = "filter (\<lambda>k. category_label k = l) (group_keys ?key ?xs)"
  have "filter (\<lambda>r. fst r = l) (category_groups d)
          = map (\<lambda>k. (category_label k, int (length (group_of ?key k ?xs)))) ?ks"
    by (simp add: category_groups_def Let_def filter_map comp_def)
  then have "(\<Sum>r\<leftarrow>filter (\<lambda>r. fst r = l) (category_groups d). snd r)
          = (\<Sum>k\<leftarrow>?ks. int (length (group_of ?key k ?xs)))"
    by (simp add: comp_def)
  also have "\<dots> = int (length (filter (\<lambda>x. ?key x \<in> set ?ks) ?xs))"
    by (rule sum_group_sizes) (simp add: group_keys_def)
  also have "filter (\<lambda>x. ?key x \<in> set ?ks) ?xs
          = filter (\<lambda>(b, i). category_label (i_category i) = l) ?xs"
    by (rule filter_cong) (auto simp add: group_keys_def)
  finally show ?thesis .
qed

lemma dropWhile_spaces:
  "set s \<subseteq> {CHR '' ''} \<Longrightarrow> dropWhile (\<lambda>c. c = CHR '' '') s = []"
  by (induction s) auto

lemma blank_label:
  assumes "k = None \<or> (\<exists>s. k = Some s \<and> set s \<subseteq> {CHR '' ''})"
  shows "category_label k = ''Uncategorised''"
proof (cases k)
  case None
  then show ?thesis
    by (simp add: category_label_def)
next
  case (Some s)
  with assms have "set s \<subseteq> {CHR '' ''}"
    by simp
  then have "sql_trim s = []"
    by (simp add: sql_trim_def dropWhile_spaces)
  with Some show ?thesis
    by (simp add: category_label_def)
qed

lemma top_categories_rows_sorted:
  "length (top_categories_rows d) \<le> 6
   \<and> sorted_wrt (\<lambda>r s. snd s \<le> snd r) (top_categories_rows d)"
  by (simp add: top_categories_rows_def order_by_desc_sorted sorted_wrt_take)

text \<open>
  The categories null, empty and two spaces all get the label, but each is a group of
  its own.
\<close>

lemma blank_categories_groups:
  "category_groups blank_categories_db
     = [(''Uncategorised'', 3), (''Uncategorised'', 2), (''Uncategorised'', 1)]"
  by code_simp

text \<open>
  C8 on the code. On a store whose items have the categories null (borrowed three
  times), empty (twice) and two spaces (once), with no key configured and an empty cache,
  \<open>top_categories\<close> replies with three rows, all labelled \<^verbatim>\<open>Uncategorised\<close>, with the counts
  3, 2 and 1: the borrowings of the blank categories are not aggregated into one row of
  count 6.
\<close>

theorem top_categories_blank_split:
  "reply (top_categories (ctx_of None blank_categories_db) (get_request None []) empty_cache)
     = Response 200 (JList
         [JObj [(''category'', JStr ''Uncategorised''), (''count'', JInt 3)],
          JObj [(''category'', JStr ''Uncategorised''), (''count'', JInt 2)],
          JObj [(''category'', JStr ''Uncategorised''), (''count'', JInt 1)]])"
proof -
  have r: "q_top_categories blank_categories_db
     = [[(''category'', JStr ''Uncategorised''), (''count'', JInt 3)],
        [(''category'', JStr ''Uncategorised''), (''count'', JInt 2)],
        [(''category'', JStr ''Uncategorised''), (''count'', JInt 1)]]"
    by code_simp
  show ?thesis
    by (simp add: top_categories_def require_api_key_def ctx_of_fields r cache_get_def
        empty_cache_def jsonify_def Let_def)
qed

text \<open>
  \<^verbatim>\<open>TRIM\<close> removes spaces only: a category that is a single tab keeps its own label.
\<close>

lemma top_categories_tab_label:
  "reply (top_categories (ctx_of None tab_category_db) (get_request None []) empty_cache)
     = Response 200 (JList [JObj [(''category'', JStr [CHR 0x09]), (''count'', JInt 1)]])"
proof -
  have r: "q_top_categories tab_category_db
     = [[(''category'', JStr [CHR 0x09]), (''count'', JInt 1)]]"
    by code_simp
  show ?thesis
    by (simp add: top_categories_def require_api_key_def ctx_of_fields r cache_get_def
        empty_cache_def jsonify_def Let_def)
qed

section \<open>Falsy cache entries\<close>

lemma falsy_entry_miss: "falsy_entry c k \<Longrightarrow> \<not> truthy (cache_get c k ttl now)"
  by (auto simp add: falsy_entry_def cache_get_def split: option.splits)

text \<open>
  C9, as the code has it. For a request that passes the guard (with a valid \<^verbatim>\<open>user_id\<close>
  for \<open>recs\<close>), a cache entry under the handler's key whose payload is falsy is not
  served, fresh or not: \<open>top_books\<close>, \<open>borrowings_trend\<close>, \<open>top_categories\<close> and
  \<open>overdue_stats\<close> query the store, reply with the result and overwrite the entry with it.
  \<open>recs\<close> does the same when the user has borrowings; when the user has none it replies
  with the empty list after the query for the user's items and leaves the cache, the
  falsy entry included, as it was.
\<close>

theorem falsy_entry_not_served:
  assumes "require_api_key (API_KEY cx) req = None"
  shows "(falsy_entry c ''top-books'' \<longrightarrow>
            top_books cx req c =
              \<lparr>reply = Response 200 (jsonify (q_top_books (db cx))),
               cache_after = cache_set c ''top-books'' (jsonify (q_top_books (db cx))) (t_write cx),
               effects = [CacheRead ''top-books'', DbQuery ''q'', CacheWrite ''top-books'']\<rparr>)
     \<and> (\<forall>days. days = (case args_get_int (python cx) (args req) ''days'' of None \<Rightarrow> 30 | Some n \<Rightarrow> n)
            \<and> falsy_entry c (''borrowings-trend:'' @ str_int days) \<longrightarrow>
            borrowings_trend cx req c =
              \<lparr>reply = Response 200 (jsonify (q_borrowings_trend (db cx) days)),
               cache_after = cache_set c (''borrowings-trend:'' @ str_int days)
                               (jsonify (q_borrowings_trend (db cx) days)) (t_write cx),
               effects = [CacheRead (''borrowings-trend:'' @ str_int days), DbQuery ''q'',
                          CacheWrite (''borrowings-trend:'' @ str_int days)]\<rparr>)
     \<and> (falsy_entry c ''top-categories'' \<longrightarrow>
            top_categories cx req c =
              \<lparr>reply = Response 200 (jsonify (q_top_categories (db cx))),
               cache_after = cache_set c ''top-categories'' (jsonify (q_top_categories (db cx)))
                               (t_write cx),
               effects = [CacheRead ''top-categories'', DbQuery ''q'',
                          CacheWrite ''top-categories'']\<rparr>)
     \<and> (falsy_entry c ''overdue-stats'' \<longrightarrow>
            overdue_stats cx req c =
              \<lparr>reply = Response 200 (JObj (hd (q_overdue_stats (db cx)))),
               cache_after = cache_set c ''overdue-stats'' (JObj (hd (q_overdue_stats (db cx))))
                               (t_write cx),
               effects = [CacheRead ''overdue-stats'', DbQuery ''q'',
                          CacheWrite ''overdue-stats'']\<rparr>)
     \<and> (\<forall>uid. args_get_int (python cx) (args req) ''user_id'' = Some uid \<and> uid \<noteq> 0
            \<and> falsy_entry c (''recs:'' @ str_int uid) \<longrightarrow>
            recs cx req c =
              (if q_user_items (db cx) uid = []
               then \<lparr>reply = Response 200 (JList []), cache_after = c,
                     effects = [CacheRead (''recs:'' @ str_int uid), DbQuery ''q_user_items'']\<rparr>
               else \<lparr>reply = Response 200 (jsonify (map with_because (rec_rows (db cx) uid))),
                     cache_after = cache_set c (''recs:'' @ str_int uid)
                       (jsonify (map with_because (rec_rows (db cx) uid))) (t_write cx),
                     effects = [CacheRead (''recs:'' @ str_int uid), DbQuery ''q_user_items'',
                                DbQuery ''q_recs'', CacheWrite (''recs:'' @ str_int uid)]\<rparr>))"
proof -
  have books: "falsy_entry c ''top-books'' \<longrightarrow>
            top_books cx req c =
              \<lparr>reply = Response 200 (jsonify (q_top_books (db cx))),
               cache_after = cache_set c ''top-books'' (jsonify (q_top_books (db cx))) (t_write cx),
               effects = [CacheRead ''top-books'', DbQuery ''q'', CacheWrite ''top-books'']\<rparr>"
    using assms by (simp add: top_books_def Let_def falsy_entry_miss)
  have trend: "\<forall>days. days = (case args_get_int (python cx) (args req) ''days'' of None \<Rightarrow> 30 | Some n \<Rightarrow> n)
            \<and> falsy_entry c (''borrowings-trend:'' @ str_int days) \<longrightarrow>
            borrowings_trend cx req c =
              \<lparr>reply = Response 200 (jsonify (q_borrowings_trend (db cx) days)),
               cache_after = cache_set c (''borrowings-trend:'' @ str_int days)
                               (jsonify (q_borrowings_trend (db cx) days)) (t_write cx),
               effects = [CacheRead (''borrowings-trend:'' @ str_int days), DbQuery ''q'',
                          CacheWrite (''borrowings-trend:'' @ str_int days)]\<rparr>"
    using assms by (simp add: borrowings_trend_def Let_def falsy_entry_miss)
  have cats: "falsy_entry c ''top-categories'' \<longrightarrow>
            top_categories cx req c =
              \<lparr>reply = Response 200 (jsonify (q_top_categories (db cx))),
               cache_after = cache_set c ''top-categories'' (jsonify (q_top_categories (db cx)))
                               (t_write cx),
               effects = [CacheRead ''top-categories'', DbQuery ''q'',
                          CacheWrite ''top-categories'']\<rparr>"
    using assms by (simp add: top_categories_def Let_def falsy_entry_miss)
  have stats: "falsy_entry c ''overdue-stats'' \<longrightarrow>
            overdue_stats cx req c =
              \<lparr>reply = Response 200 (JObj (hd (q_overdue_stats (db cx)))),
               cache_after = cache_set c ''overdue-stats'' (JObj (hd (q_overdue_stats (db cx))))
                               (t_write cx),
               effects = [CacheRead ''overdue-stats'', DbQuery ''q'',
                          CacheWrite ''overdue-stats'']\<rparr>"
    using assms
    by (simp add: overdue_stats_def Let_def falsy_entry_miss q_overdue_stats_def fetchone_def)
  have recs: "\<forall>uid. args_get_int (python cx) (args req) ''user_id'' = Some uid \<and> uid \<noteq> 0
            \<and> falsy_entry c (''recs:'' @ str_int uid) \<longrightarrow>
            recs cx req c =
              (if q_user_items (db cx) uid = []
               then \<lparr>reply = Response 200 (JList []), cache_after = c,
                     effects = [CacheRead (''recs:'' @ str_int uid), DbQuery ''q_user_items'']\<rparr>
               else \<lparr>reply = Response 200 (jsonify (map with_because (rec_rows (db cx) uid))),
                     cache_after = cache_set c (''recs:'' @ str_int uid)
                       (jsonify (map with_because (rec_rows (db cx) uid))) (t_write cx),
                     effects = [CacheRead (''recs:'' @ str_int uid), DbQuery ''q_user_items'',
                                DbQuery ''q_recs'', CacheWrite (''recs:'' @ str_int uid)]\<rparr>)"
    using assms
    by (simp add: recs_def Let_def falsy_entry_miss q_recs_def shape_rows_q_recs)
  from books trend cats stats recs show ?thesis
    by blast
qed


text \<open>
  The claim as written fails for \<open>recs\<close> on its no-history branch: with a fresh empty list
  cached under \<^verbatim>\<open>recs:7\<close> and no borrowing of user 7, the handler recomputes but does not
  overwrite the entry, which keeps its payload and its timestamp.
\<close>

theorem recs_falsy_entry_kept_counterexample:
  "falsy_entry stale_empty_cache ''recs:7''
   \<and> cache_after (recs (ctx_of None example_db) (get_request None [(''user_id'', ''7'')])
        stale_empty_cache) ''recs:7'' = Some (JList [], 990)
   \<and> effects (recs (ctx_of None example_db) (get_request None [(''user_id'', ''7'')])
        stale_empty_cache) = [CacheRead ''recs:7'', DbQuery ''q_user_items'']"
proof -
  have f: "falsy_entry stale_empty_cache ''recs:7''"
    by (simp add: falsy_entry_def stale_empty_cache_def cache_set_def)
  have e: "stale_empty_cache ''recs:7'' = Some (JList [], 990)"
    by (simp add: stale_empty_cache_def cache_set_def)
  have m: "cache_get stale_empty_cache ''recs:7'' 60 (t_read (ctx_of None example_db)) = JList []"
    by (simp add: cache_get_def e ctx_of_def)
  have q: "q_user_items (db (ctx_of None example_db)) 7 = []"
    by (simp add: ctx_of_fields example_history)
  show ?thesis
    by (simp add: recs_def example_guard example_user_ids example_keys f e q m)
qed



theorem falsy_entry_not_served_witness:
  "require_api_key (API_KEY (ctx_of None empty_db)) (get_request None []) = None
   \<and> falsy_entry empty_books_cache ''top-books''
   \<and> cache_get empty_books_cache ''top-books'' 60 (t_read (ctx_of None empty_db)) = JList []
   \<and> reply (top_books (ctx_of None empty_db) (get_request None []) empty_books_cache)
       = Response 200 (JList [])
   \<and> cache_after (top_books (ctx_of None empty_db) (get_request None []) empty_books_cache)
        ''top-books'' = Some (JList [], 1001)"
proof -
  have a: "require_api_key (API_KEY (ctx_of None empty_db)) (get_request None []) = None"
    by (simp add: require_api_key_def ctx_of_def)
  have b: "falsy_entry empty_books_cache ''top-books''"
    by (simp add: falsy_entry_def empty_books_cache_def cache_set_def)
  have c: "cache_get empty_books_cache ''top-books'' 60 (t_read (ctx_of None empty_db)) = JList []"
    by (simp add: cache_get_def empty_books_cache_def cache_set_def ctx_of_def)
  have "q_top_books empty_db = []"
    by code_simp
  then have d: "q_top_books (db (ctx_of None empty_db)) = []"
    by (simp add: ctx_of_fields)
  from falsy_entry_not_served [OF a, of empty_books_cache] a b c d show ?thesis
    by (simp add: jsonify_def cache_set_def ctx_of_def)
qed

end
